theory Spec2Isabelle
  imports Complex_Main "HOL-Library.Stream"
begin

section \<open>The two versions of the bot\<close>

text \<open>
  The bot exists in two versions: \<^verbatim>\<open>src/index.js\<close> (exact \<^verbatim>\<open>BigNumber\<close> profit, a
  stochastic last resort) and \<^verbatim>\<open>src/unnamed/part_001\<close> (plain JS numbers, a balance
  pre-check, triangular arbitrage). Definitions of the second version carry the suffix
  \<open>_v2\<close>; everything else is shared or belongs to \<^verbatim>\<open>index.js\<close>.

  \<^verbatim>\<open>BigNumber\<close> values are unbounded integers (\<open>int\<close>). Every awaited call into the
  network or into the exchange SDKs may throw; a thrown exception is an \<open>error\<close> on the left
  of a sum.
\<close>

section \<open>JS numbers\<close>

text \<open>
  A JS number is an IEEE 754 double: a rational, an infinity or \<^verbatim>\<open>NaN\<close> (the sign of zero
  plays no part in what follows). \<open>fl\<close> rounds a rational to the nearest double, ties to
  even, with gradual underflow and overflow to infinity; it is the value of a decimal
  literal, of \<^verbatim>\<open>parseFloat\<close> and of the conversion of a decimal string to a number, and every
  arithmetic operation rounds its exact result with it.
\<close>

datatype jsnum = Number rat | PosInfinity | NegInfinity | NaN

text \<open>The number of binary digits of a positive integer.\<close>

function bitlength :: "int \<Rightarrow> nat" where
  "bitlength n = (if n \<le> 0 then 0 else Suc (bitlength (n div 2)))"
  by pat_completeness auto
termination
  by (relation "measure nat") auto

declare bitlength.simps [simp del]

definition pow2 :: "int \<Rightarrow> rat" where
  "pow2 k = (if 0 \<le> k then 2 ^ nat k else 1 / 2 ^ nat (- k))"

text \<open>For \<open>x > 0\<close>, the \<open>e\<close> with \<open>2 ^ e \<le> x < 2 ^ (e + 1)\<close>.\<close>

definition exponent :: "rat \<Rightarrow> int" where
  "exponent x =
     (if 1 \<le> x then int (bitlength \<lfloor>x\<rfloor>) - 1
      else - int (bitlength (\<lceil>1 / x\<rceil> - 1)))"

definition roundEven :: "rat \<Rightarrow> int" where
  "roundEven y =
     (let f = \<lfloor>y\<rfloor>; r = y - of_int f
      in if r < 1 / 2 then f else if 1 / 2 < r then f + 1 else if even f then f else f + 1)"

definition fl :: "rat \<Rightarrow> jsnum" where
  "fl x =
     (if x = 0 then Number 0
      else
        (let e = max (exponent \<bar>x\<bar>) (- 1022);
             ulp = pow2 (e - 52);
             y = of_int (roundEven (\<bar>x\<bar> / ulp)) * ulp
         in if 2 ^ 1024 \<le> y then (if 0 < x then PosInfinity else NegInfinity)
            else Number (sgn x * y)))"

text \<open>\<^verbatim>\<open>a < b\<close>, \<^verbatim>\<open>a > b\<close> and \<^verbatim>\<open>a >= b\<close>: every comparison with \<^verbatim>\<open>NaN\<close> is false.\<close>

fun js_lt :: "jsnum \<Rightarrow> jsnum \<Rightarrow> bool" where
  "js_lt NaN b = False"
| "js_lt a NaN = False"
| "js_lt (Number x) (Number y) = (x < y)"
| "js_lt a NegInfinity = False"
| "js_lt PosInfinity b = False"
| "js_lt NegInfinity b = True"
| "js_lt a PosInfinity = True"

definition js_gt :: "jsnum \<Rightarrow> jsnum \<Rightarrow> bool" where
  "js_gt a b = js_lt b a"

definition js_ge :: "jsnum \<Rightarrow> jsnum \<Rightarrow> bool" where
  "js_ge a b = (a \<noteq> NaN \<and> b \<noteq> NaN \<and> \<not> js_lt a b)"

text \<open>\<^verbatim>\<open>a - b\<close>, \<^verbatim>\<open>a * b\<close> and \<^verbatim>\<open>Math.min(a, b)\<close>.\<close>

fun js_sub :: "jsnum \<Rightarrow> jsnum \<Rightarrow> jsnum" where
  "js_sub NaN b = NaN"
| "js_sub a NaN = NaN"
| "js_sub (Number x) (Number y) = fl (x - y)"
| "js_sub PosInfinity PosInfinity = NaN"
| "js_sub NegInfinity NegInfinity = NaN"
| "js_sub PosInfinity b = PosInfinity"
| "js_sub NegInfinity b = NegInfinity"
| "js_sub a PosInfinity = NegInfinity"
| "js_sub a NegInfinity = PosInfinity"

fun js_mul :: "jsnum \<Rightarrow> jsnum \<Rightarrow> jsnum" where
  "js_mul NaN b = NaN"
| "js_mul a NaN = NaN"
| "js_mul (Number x) (Number y) = fl (x * y)"
| "js_mul (Number x) PosInfinity =
     (if x = 0 then NaN else if 0 < x then PosInfinity else NegInfinity)"
| "js_mul (Number x) NegInfinity =
     (if x = 0 then NaN else if 0 < x then NegInfinity else PosInfinity)"
| "js_mul PosInfinity (Number y) =
     (if y = 0 then NaN else if 0 < y then PosInfinity else NegInfinity)"
| "js_mul NegInfinity (Number y) =
     (if y = 0 then NaN else if 0 < y then NegInfinity else PosInfinity)"
| "js_mul PosInfinity PosInfinity = PosInfinity"
| "js_mul NegInfinity NegInfinity = PosInfinity"
| "js_mul PosInfinity NegInfinity = NegInfinity"
| "js_mul NegInfinity PosInfinity = NegInfinity"

definition Math_min :: "jsnum \<Rightarrow> jsnum \<Rightarrow> jsnum" where
  "Math_min a b = (if a = NaN \<or> b = NaN then NaN else if js_lt b a then b else a)"

text \<open>
  The generator behind the global \<^verbatim>\<open>Math.random\<close>, as the stream of numbers it will
  return, each in \<open>[0, 1)\<close>. A call takes the head and leaves the tail.
\<close>

type_synonym runtime = "rat stream"

definition Math_random :: "runtime \<Rightarrow> rat \<times> runtime" where
  "Math_random rt = (shd rt, stl rt)"

section \<open>Tokens, SDK objects and collaborators\<close>

type_synonym addr = string

datatype error =
    NetworkError
  | SdkFailure
  | InvalidUnits
  | DivisionByZero
  | NumericFault
  | ReferenceError

datatype venue = Uniswap | SushiSwap

text \<open>
  An entry of the CoinGecko response (\<open>polygon_pos\<close> is \<^verbatim>\<open>platforms?.['polygon-pos']\<close>), and
  the token the bot keeps of it.
\<close>

record apiToken =
  api_id :: string
  api_symbol :: string
  polygon_pos :: "addr option"
  contract_address :: "addr option"

record token =
  tid :: string
  symbol :: string
  address :: "addr option"

text \<open>
  The SDK objects, reduced to the fields the bot reads. The bot uses
  \<^verbatim>\<open>executionPrice.raw\<close> as a \<^verbatim>\<open>BigNumber\<close> (it calls \<^verbatim>\<open>sub\<close> on it and compares the
  difference with \<^verbatim>\<open>gt\<close>), so \<open>raw\<close> is an integer.
\<close>

record sdkToken =
  sdkAddress :: addr
  decimals :: nat

record pair =
  token0 :: sdkToken
  token1 :: sdkToken

record price =
  raw :: int

record trade =
  dex :: venue
  inputToken :: sdkToken
  inputAmount :: int
  outputAmount :: int
  executionPrice :: price

text \<open>
  What the bot does not contain is a parameter: the pair fetchers of the two SDKs, their
  \<^verbatim>\<open>Trade\<close> constructors (\<^verbatim>\<open>new Trade(new Route([pair], tok), new TokenAmount(tok, amt),
  EXACT_INPUT)\<close>), and the provider's gas price. The fetchers and the gas price are
  indexed by the candidate under evaluation, since the network may answer differently
  each time. Only \<^verbatim>\<open>part_001\<close> uses the last two: \<open>balanceOf\<close> is the wallet's balance of
  a token as the decimal \<^verbatim>\<open>ethers.formatUnits(balance, 18)\<close> prints, and \<open>parseUnits\<close> is
  \<^verbatim>\<open>ethers.parseUnits(amount.toString(), decimals)\<close> for a JS number \<^verbatim>\<open>amount\<close>, which throws
  on a string it cannot read.
\<close>

record sdk =
  Fetcher_fetchPairData :: "addr \<Rightarrow> addr \<Rightarrow> error + pair option"
  SushiFetcher_fetchPairData :: "addr \<Rightarrow> addr \<Rightarrow> error + pair option"
  Trade_new :: "pair \<Rightarrow> sdkToken \<Rightarrow> int \<Rightarrow> error + trade"
  SushiTrade_new :: "pair \<Rightarrow> sdkToken \<Rightarrow> int \<Rightarrow> error + trade"
  getGasPrice :: "addr \<Rightarrow> addr \<Rightarrow> error + int"
  balanceOf :: "addr \<Rightarrow> error + rat"
  parseUnits :: "jsnum \<Rightarrow> nat \<Rightarrow> error + int"

text \<open>JS truthiness of an address: \<^verbatim>\<open>null\<close>, \<^verbatim>\<open>undefined\<close> and the empty string are falsy.\<close>

definition truthy :: "addr option \<Rightarrow> bool" where
  "truthy a = (case a of None \<Rightarrow> False | Some s \<Rightarrow> s \<noteq> [])"

text \<open>
  \<^verbatim>\<open>fetchTopTokens\<close> of \<^verbatim>\<open>index.js\<close>: a failed request yields the empty list; otherwise every
  entry is mapped (\<^verbatim>\<open>token.platforms?.['polygon-pos'] || null\<close>) and entries without address
  are filtered out.
\<close>

definition fetchTopTokens :: "error + apiToken list \<Rightarrow> token list" where
  "fetchTopTokens response =
     (case response of
        Inl e \<Rightarrow> []
      | Inr data \<Rightarrow>
          filter (\<lambda>t. truthy (address t))
            (map (\<lambda>t. \<lparr>tid = api_id t, symbol = api_symbol t,
                        address = (if truthy (polygon_pos t) then polygon_pos t else None)\<rparr>)
               data))"

section \<open>Gas cost and profit\<close>

text \<open>\<^verbatim>\<open>BigNumber.div\<close> truncates towards zero and throws on a zero divisor.\<close>

definition tdiv :: "int \<Rightarrow> int \<Rightarrow> int" where
  "tdiv a b = sgn a * sgn b * (\<bar>a\<bar> div \<bar>b\<bar>)"

definition bn_div :: "int \<Rightarrow> int \<Rightarrow> error + int" where
  "bn_div a b = (if b = 0 then Inl DivisionByZero else Inr (tdiv a b))"

text \<open>\<^verbatim>\<open>BigNumber.toNumber\<close> throws outside the 53 bits a JS number holds exactly.\<close>

definition toNumber :: "int \<Rightarrow> error + int" where
  "toNumber q = (if \<bar>q\<bar> < 2 ^ 53 then Inr q else Inl NumericFault)"

text \<open>
  \<^verbatim>\<open>estimateGasCost(trade)\<close>: the first argument is what \<^verbatim>\<open>await provider.getGasPrice()\<close>
  gave. The gas units are the constant 200000 in \<^verbatim>\<open>index.js\<close> and 250000 in
  \<^verbatim>\<open>part_001\<close>.
\<close>

definition estimateGasCost :: "error + int \<Rightarrow> trade \<Rightarrow> error + int" where
  "estimateGasCost observed trade =
     (case observed of
        Inl e \<Rightarrow> Inl e
      | Inr gasPrice \<Rightarrow>
          (let adjustedGasPrice = tdiv (gasPrice * 110) 100;
               gasEstimate = 200000
           in Inr (adjustedGasPrice * gasEstimate)))"

definition estimateGasCost_v2 :: "error + int \<Rightarrow> trade \<Rightarrow> error + int" where
  "estimateGasCost_v2 observed trade =
     (case observed of
        Inl e \<Rightarrow> Inl e
      | Inr gasPrice \<Rightarrow>
          (let adjustedGasPrice = tdiv (gasPrice * 110) 100;
               gasEstimate = 250000
           in Inr (adjustedGasPrice * gasEstimate)))"

text \<open>
  \<^verbatim>\<open>calculateProfit\<close>. In \<^verbatim>\<open>index.js\<close> it is \<^verbatim>\<open>executionPrice.raw.sub(gasCost)\<close>. In
  \<^verbatim>\<open>part_001\<close> it takes the traded amount as a third argument and computes
  \<^verbatim>\<open>amountOut - gasCost.toString()\<close>: the minus converts both operands to JS numbers (each
  through its decimal string) and subtracts those.
\<close>

definition calculateProfit :: "price \<Rightarrow> int \<Rightarrow> int" where
  "calculateProfit execPrice gasCost = raw execPrice - gasCost"

definition calculateProfit_v2 :: "price \<Rightarrow> int \<Rightarrow> jsnum \<Rightarrow> jsnum" where
  "calculateProfit_v2 execPrice gasCost amountIn =
     (let amountOut = raw execPrice
      in js_sub (fl (of_int amountOut)) (fl (of_int gasCost)))"

text \<open>
  The net profit as the specification words it: value of the output, minus value of the
  input, minus gas cost.
\<close>

definition netProfit_spec :: "int \<Rightarrow> int \<Rightarrow> int \<Rightarrow> int" where
  "netProfit_spec outputValue inputValue gasCost = outputValue - inputValue - gasCost"

section \<open>Choosing between the two venues\<close>

text \<open>
  \<^verbatim>\<open>Price.lessThan\<close> orders prices by their value. The comparison
  \<^verbatim>\<open>[uniswapTrade, sushiTrade].reduce((best, current) => ...)\<close> has no initial value, so
  the fold starts from the first element.
\<close>

definition lessThan_price :: "price \<Rightarrow> price \<Rightarrow> bool" where
  "lessThan_price p q = (raw p < raw q)"

definition better :: "trade \<Rightarrow> trade \<Rightarrow> trade" where
  "better best current =
     (if lessThan_price (executionPrice current) (executionPrice best) then current else best)"

definition bestCurrentTrade :: "trade \<Rightarrow> trade \<Rightarrow> trade" where
  "bestCurrentTrade uniswapTrade sushiTrade = foldl better uniswapTrade [sushiTrade]"

section \<open>One pass of \<^verbatim>\<open>evaluatePairsAcrossDEXs\<close> in \<^verbatim>\<open>index.js\<close>\<close>

record best =
  bestTrade :: "trade option"
  bestProfit :: int

datatype outcome = TradeExecuted trade | NoTradeLogged | ErrorReported error

text \<open>\<^verbatim>\<open>fetchPairs\<close> catches whatever the Uniswap fetcher throws and returns \<^verbatim>\<open>null\<close>.\<close>

definition fetchPairs :: "sdk \<Rightarrow> addr \<Rightarrow> addr \<Rightarrow> pair option" where
  "fetchPairs s token1Address token2Address =
     (case Fetcher_fetchPairData s token1Address token2Address of
        Inl e \<Rightarrow> None
      | Inr p \<Rightarrow> p)"

text \<open>\<^verbatim>\<open>ethers.parseUnits('1', decimals)\<close>.\<close>

definition parseUnits1 :: "nat \<Rightarrow> int" where
  "parseUnits1 d = 10 ^ d"

text \<open>The two nested loops visit the pairs \<open>(i, j)\<close> with \<open>i < j\<close>, row by row.\<close>

fun candidatePairs :: "'a list \<Rightarrow> ('a \<times> 'a) list" where
  "candidatePairs [] = []"
| "candidatePairs (x # xs) = map (Pair x) xs @ candidatePairs xs"

text \<open>
  The body of the inner loop up to the profit, for one candidate. \<open>Inr None\<close> is
  \<^verbatim>\<open>continue\<close>; \<open>Inl e\<close> is an exception, which leaves both loops for the \<^verbatim>\<open>catch\<close> of the
  pass. Only the Uniswap fetch is wrapped (in \<open>fetchPairs\<close>); the SushiSwap fetch, the two
  \<^verbatim>\<open>Trade\<close> constructors and the gas price are awaited bare.
\<close>

definition evaluatePair :: "sdk \<Rightarrow> token \<times> token \<Rightarrow> error + (trade \<times> int) option" where
  "evaluatePair s c =
     (case address (fst c) of
        None \<Rightarrow> Inr None
      | Some token1Address \<Rightarrow>
     (case address (snd c) of
        None \<Rightarrow> Inr None
      | Some token2Address \<Rightarrow>
     if token1Address = [] \<or> token2Address = [] then Inr None
     else
     (case fetchPairs s token1Address token2Address of
        None \<Rightarrow> Inr None
      | Some uniswapPair \<Rightarrow>
     (case Trade_new s uniswapPair (token0 uniswapPair)
             (parseUnits1 (decimals (token0 uniswapPair))) of
        Inl e \<Rightarrow> Inl e
      | Inr uniswapTrade \<Rightarrow>
     (case SushiFetcher_fetchPairData s token1Address token2Address of
        Inl e \<Rightarrow> Inl e
      | Inr None \<Rightarrow> Inr None
      | Inr (Some sushiPair) \<Rightarrow>
     (case SushiTrade_new s sushiPair (token0 sushiPair)
             (parseUnits1 (decimals (token0 sushiPair))) of
        Inl e \<Rightarrow> Inl e
      | Inr sushiTrade \<Rightarrow>
     (let bestCurrent = bestCurrentTrade uniswapTrade sushiTrade
      in case estimateGasCost (getGasPrice s token1Address token2Address) bestCurrent of
           Inl e \<Rightarrow> Inl e
         | Inr gasCost \<Rightarrow>
             Inr (Some (bestCurrent,
                        calculateProfit (executionPrice bestCurrent) gasCost)))))))))"

text \<open>
  The loops: a candidate whose profit exceeds \<^verbatim>\<open>minimumProfitThreshold\<close>
  (\<^verbatim>\<open>potentialProfit.gt(minimumProfitThreshold)\<close>) replaces the retained trade.
\<close>

fun evaluatePairs_loop :: "sdk \<Rightarrow> int \<Rightarrow> (token \<times> token) list \<Rightarrow> best \<Rightarrow> error + best" where
  "evaluatePairs_loop s minimumProfitThreshold [] st = Inr st"
| "evaluatePairs_loop s minimumProfitThreshold (c # cs) st =
     (case evaluatePair s c of
        Inl e \<Rightarrow> Inl e
      | Inr None \<Rightarrow> evaluatePairs_loop s minimumProfitThreshold cs st
      | Inr (Some (bestCurrent, potentialProfit)) \<Rightarrow>
          evaluatePairs_loop s minimumProfitThreshold cs
            (if potentialProfit > minimumProfitThreshold
             then \<lparr>bestTrade = Some bestCurrent, bestProfit = potentialProfit\<rparr>
             else st))"

text \<open>
  \<^verbatim>\<open>stochasticDecision(trade, profit, threshold)\<close>. It has no parameter for a random source:
  it calls the global \<^verbatim>\<open>Math.random()\<close> first, so it takes the runtime's generator and
  returns it advanced by one draw, together with the decision or the error thrown.
\<close>

definition stochasticDecision :: "trade \<Rightarrow> int \<Rightarrow> int \<Rightarrow> runtime \<Rightarrow> (error + bool) \<times> runtime" where
  "stochasticDecision t profit threshold rt =
     (let (probability, rt') = Math_random rt
      in ((case bn_div profit threshold of
             Inl e \<Rightarrow> Inl e
           | Inr q \<Rightarrow>
               (case toNumber q of
                  Inl e \<Rightarrow> Inl e
                | Inr profitProbability \<Rightarrow> Inr (of_int profitProbability > probability))),
          rt'))"

text \<open>
  The decision as the specification asks for it: the random source is injected, here as
  the number it yields, and the global generator is left alone.
\<close>

definition stochasticDecision_spec ::
  "rat \<Rightarrow> trade \<Rightarrow> int \<Rightarrow> int \<Rightarrow> runtime \<Rightarrow> (error + bool) \<times> runtime" where
  "stochasticDecision_spec source t profit threshold rt =
     ((case bn_div profit threshold of
         Inl e \<Rightarrow> Inl e
       | Inr q \<Rightarrow>
           (case toNumber q of
              Inl e \<Rightarrow> Inl e
            | Inr profitProbability \<Rightarrow> Inr (of_int profitProbability > source))),
      rt)"

text \<open>\<^verbatim>\<open>ethers.parseUnits('0.001', 'ether')\<close>.\<close>

definition profitThreshold :: int where
  "profitThreshold = 10 ^ 15"

text \<open>
  The end of the pass: \<^verbatim>\<open>bestTrade && (bestProfit.gt(0n) || stochasticDecision(...))\<close>.
  \<^verbatim>\<open>executeTrade\<close> catches its own errors, so calling it is the outcome.
\<close>

definition finishPass :: "runtime \<Rightarrow> best \<Rightarrow> outcome" where
  "finishPass rt st =
     (case bestTrade st of
        None \<Rightarrow> NoTradeLogged
      | Some t \<Rightarrow>
          if bestProfit st > 0 then TradeExecuted t
          else (case fst (stochasticDecision t (bestProfit st) profitThreshold rt) of
                  Inl e \<Rightarrow> ErrorReported e
                | Inr True \<Rightarrow> TradeExecuted t
                | Inr False \<Rightarrow> NoTradeLogged))"

text \<open>
  The whole pass. \<open>response\<close> is the CoinGecko answer, \<open>parsedThreshold\<close> what
  \<^verbatim>\<open>ethers.parseUnits(process.env.MINIMUM_PROFIT_THRESHOLD || '0.001')\<close> gave (it sits inside
  the \<^verbatim>\<open>try\<close>, so a value it cannot read ends the pass in the \<^verbatim>\<open>catch\<close>), \<open>rt\<close> the
  generator of \<^verbatim>\<open>Math.random\<close> as the pass finds it.
\<close>

definition evaluatePairsAcrossDEXs ::
  "sdk \<Rightarrow> error + apiToken list \<Rightarrow> error + int \<Rightarrow> runtime \<Rightarrow> outcome" where
  "evaluatePairsAcrossDEXs s response parsedThreshold rt =
     (let tokenList = fetchTopTokens response
      in case parsedThreshold of
           Inl e \<Rightarrow> ErrorReported e
         | Inr minimumProfitThreshold \<Rightarrow>
             (case evaluatePairs_loop s minimumProfitThreshold (candidatePairs tokenList)
                     \<lparr>bestTrade = None, bestProfit = 0\<rparr> of
                Inl e \<Rightarrow> ErrorReported e
              | Inr st \<Rightarrow> finishPass rt st))"

section \<open>One pass of \<^verbatim>\<open>evaluatePairsAcrossDEXs\<close> in \<^verbatim>\<open>part_001\<close>\<close>

text \<open>Balances, the traded amount, profits and the threshold are JS numbers here.\<close>

record best_v2 =
  bestTrade_v2 :: "trade option"
  bestProfit_v2 :: jsnum

text \<open>
  \<^verbatim>\<open>parseInt(process.env.MINIMUM_PROFIT_THRESHOLD) || 0.01\<close>: the argument is the integer
  \<^verbatim>\<open>parseInt\<close> read, \<open>None\<close> for \<^verbatim>\<open>NaN\<close>; \<^verbatim>\<open>NaN\<close> and zero are falsy.
\<close>

definition MINIMUM_PROFIT_THRESHOLD :: "int option \<Rightarrow> jsnum" where
  "MINIMUM_PROFIT_THRESHOLD parsed =
     (case parsed of
        None \<Rightarrow> fl (1 / 100)
      | Some n \<Rightarrow> if n = 0 then fl (1 / 100) else fl (of_int n))"

text \<open>\<^verbatim>\<open>fetchTopTokens\<close> of \<^verbatim>\<open>part_001\<close> keeps every entry, with or without address.\<close>

definition fetchTopTokens_v2 :: "error + apiToken list \<Rightarrow> token list" where
  "fetchTopTokens_v2 response =
     (case response of
        Inl e \<Rightarrow> []
      | Inr data \<Rightarrow>
          map (\<lambda>t. \<lparr>tid = api_id t, symbol = api_symbol t, address = contract_address t\<rparr>)
            data)"

text \<open>
  \<^verbatim>\<open>getTokenBalance\<close> returns the balance as a decimal string, \<^verbatim>\<open>'0'\<close> when the call
  failed; the string is modelled by the rational it denotes, and \<^verbatim>\<open>parseFloat\<close> rounds it.
\<close>

definition getTokenBalance :: "sdk \<Rightarrow> addr \<Rightarrow> rat" where
  "getTokenBalance s tokenAddress =
     (case balanceOf s tokenAddress of
        Inl e \<Rightarrow> 0
      | Inr balance \<Rightarrow> balance)"

definition parseFloat :: "rat \<Rightarrow> jsnum" where
  "parseFloat str = fl str"

definition hasSufficientBalance :: "sdk \<Rightarrow> addr \<Rightarrow> jsnum \<Rightarrow> bool" where
  "hasSufficientBalance s baseTokenAddress requiredAmount =
     (let balance = parseFloat (getTokenBalance s baseTokenAddress)
      in js_ge balance requiredAmount)"

definition evaluatePair_v2 :: "sdk \<Rightarrow> token \<times> token \<Rightarrow> error + (trade \<times> jsnum) option" where
  "evaluatePair_v2 s c =
     (case address (fst c) of
        None \<Rightarrow> Inr None
      | Some token1Address \<Rightarrow>
     (case address (snd c) of
        None \<Rightarrow> Inr None
      | Some token2Address \<Rightarrow>
     if token1Address = [] \<or> token2Address = [] then Inr None
     else if \<not> hasSufficientBalance s token1Address (fl (1 / 10))
             \<and> \<not> hasSufficientBalance s token2Address (fl (1 / 10)) then Inr None
     else
     (let token1Balance = parseFloat (getTokenBalance s token1Address);
          token2Balance = parseFloat (getTokenBalance s token2Address);
          amountToTrade = js_mul (Math_min token1Balance token2Balance) (fl (1 / 10))
      in
     (case fetchPairs s token1Address token2Address of
        None \<Rightarrow> Inr None
      | Some uniswapPair \<Rightarrow>
     (case parseUnits s amountToTrade (decimals (token0 uniswapPair)) of
        Inl e \<Rightarrow> Inl e
      | Inr uniswapAmount \<Rightarrow>
     (case Trade_new s uniswapPair (token0 uniswapPair) uniswapAmount of
        Inl e \<Rightarrow> Inl e
      | Inr uniswapTrade \<Rightarrow>
     (case SushiFetcher_fetchPairData s token1Address token2Address of
        Inl e \<Rightarrow> Inl e
      | Inr None \<Rightarrow> Inr None
      | Inr (Some sushiPair) \<Rightarrow>
     (case parseUnits s amountToTrade (decimals (token0 sushiPair)) of
        Inl e \<Rightarrow> Inl e
      | Inr sushiAmount \<Rightarrow>
     (case SushiTrade_new s sushiPair (token0 sushiPair) sushiAmount of
        Inl e \<Rightarrow> Inl e
      | Inr sushiTrade \<Rightarrow>
     (let bestCurrent = bestCurrentTrade uniswapTrade sushiTrade
      in case estimateGasCost_v2 (getGasPrice s token1Address token2Address) bestCurrent of
           Inl e \<Rightarrow> Inl e
         | Inr gasCost \<Rightarrow>
             Inr (Some (bestCurrent,
                        calculateProfit_v2 (executionPrice bestCurrent) gasCost
                          amountToTrade))))))))))))"

text \<open>Here a candidate replaces the retained trade when \<^verbatim>\<open>potentialProfit > 0\<close>.\<close>

fun evaluatePairs_loop_v2 :: "sdk \<Rightarrow> (token \<times> token) list \<Rightarrow> best_v2 \<Rightarrow> error + best_v2" where
  "evaluatePairs_loop_v2 s [] st = Inr st"
| "evaluatePairs_loop_v2 s (c # cs) st =
     (case evaluatePair_v2 s c of
        Inl e \<Rightarrow> Inl e
      | Inr None \<Rightarrow> evaluatePairs_loop_v2 s cs st
      | Inr (Some (bestCurrent, potentialProfit)) \<Rightarrow>
          evaluatePairs_loop_v2 s cs
            (if js_gt potentialProfit (Number 0)
             then \<lparr>bestTrade_v2 = Some bestCurrent, bestProfit_v2 = potentialProfit\<rparr>
             else st))"

text \<open>
  The end of the pass: \<^verbatim>\<open>if (bestTrade && bestProfit >= MINIMUM_PROFIT_THRESHOLD)\<close>. The call
  in that branch is \<^verbatim>\<open>executeTrade(bestTrade, amountToTrade)\<close>, and \<^verbatim>\<open>amountToTrade\<close> is a
  \<^verbatim>\<open>const\<close> of the inner loop's body, not in scope after the loops: evaluating the
  arguments throws a \<^verbatim>\<open>ReferenceError\<close>, which the \<^verbatim>\<open>catch\<close> of the pass reports.
\<close>

definition shouldExecute_v2 :: "best_v2 \<Rightarrow> jsnum \<Rightarrow> bool" where
  "shouldExecute_v2 st threshold =
     (bestTrade_v2 st \<noteq> None \<and> js_ge (bestProfit_v2 st) threshold)"

definition finishPass_v2 :: "best_v2 \<Rightarrow> jsnum \<Rightarrow> outcome" where
  "finishPass_v2 st threshold =
     (if shouldExecute_v2 st threshold then ErrorReported ReferenceError else NoTradeLogged)"

definition evaluatePairsAcrossDEXs_v2 :: "sdk \<Rightarrow> error + apiToken list \<Rightarrow> int option \<Rightarrow> outcome" where
  "evaluatePairsAcrossDEXs_v2 s response parsed =
     (let tokenList = fetchTopTokens_v2 response
      in case evaluatePairs_loop_v2 s (candidatePairs tokenList)
                \<lparr>bestTrade_v2 = None, bestProfit_v2 = Number 0\<rparr> of
           Inl e \<Rightarrow> ErrorReported e
         | Inr st \<Rightarrow> finishPass_v2 st (MINIMUM_PROFIT_THRESHOLD parsed))"

section \<open>Triangular arbitrage in \<^verbatim>\<open>part_001\<close>\<close>

text \<open>
  The three trades of \<^verbatim>\<open>evaluateTriangularArbitrage\<close> for one triple whose pairs were
  fetched, and the profit. Each route starts at its pair's \<^verbatim>\<open>token0\<close>; the second and
  third input amounts are the previous \<^verbatim>\<open>outputAmount\<close> (handed over through
  \<^verbatim>\<open>toFixed()\<close>, which the model takes to preserve the amount). \<open>amountIn\<close> is
  \<^verbatim>\<open>ethers.parseUnits(amountToTrade.toString(), pair1.token0.decimals)\<close>.
\<close>

definition triangularProfit :: "sdk \<Rightarrow> int \<Rightarrow> pair \<Rightarrow> pair \<Rightarrow> pair \<Rightarrow> error + int" where
  "triangularProfit s amountIn pair1 pair2 pair3 =
     (case Trade_new s pair1 (token0 pair1) amountIn of
        Inl e \<Rightarrow> Inl e
      | Inr trade1 \<Rightarrow>
     (case Trade_new s pair2 (token0 pair2) (outputAmount trade1) of
        Inl e \<Rightarrow> Inl e
      | Inr trade2 \<Rightarrow>
     (case Trade_new s pair3 (token0 pair3) (outputAmount trade2) of
        Inl e \<Rightarrow> Inl e
      | Inr trade3 \<Rightarrow> Inr (outputAmount trade3 - amountIn))))"

text \<open>
  The triangular profit as the specification words it, for the candidate \<open>(A, B, C)\<close>: the
  hops run \<open>A \<rightarrow> B\<close> on the first pair, \<open>B \<rightarrow> C\<close> on the second and \<open>C \<rightarrow> A\<close> on the third.
\<close>

definition triangularProfit_spec ::
  "sdk \<Rightarrow> int \<Rightarrow> sdkToken \<Rightarrow> sdkToken \<Rightarrow> sdkToken \<Rightarrow> pair \<Rightarrow> pair \<Rightarrow> pair \<Rightarrow> error + int" where
  "triangularProfit_spec s amountIn A B C pair1 pair2 pair3 =
     (case Trade_new s pair1 A amountIn of
        Inl e \<Rightarrow> Inl e
      | Inr hop1 \<Rightarrow>
     (case Trade_new s pair2 B (outputAmount hop1) of
        Inl e \<Rightarrow> Inl e
      | Inr hop2 \<Rightarrow>
     (case Trade_new s pair3 C (outputAmount hop2) of
        Inl e \<Rightarrow> Inl e
      | Inr hop3 \<Rightarrow> Inr (outputAmount hop3 - amountIn))))"

section \<open>Example markets\<close>

text \<open>
  Concrete collaborators on which the passes are run below. Three tokens are listed, in
  the order \<open>0xa\<close>, \<open>0xb\<close>, \<open>0xc\<close>; every token has 18 decimals; the gas price is 1 gwei,
  so the fee estimate of \<^verbatim>\<open>index.js\<close> is \<open>220000000000000\<close>. The wallet holds one of each
  token, so \<^verbatim>\<open>part_001\<close> trades the amount \<^verbatim>\<open>1 * 0.1\<close>, the double \<^verbatim>\<open>0.1\<close>; it prints as
  \<^verbatim>\<open>'0.1'\<close>, which \<^verbatim>\<open>parseUnits\<close> reads as \<open>10 ^ 17\<close> at 18 decimals. No other amount is
  converted in these markets.
\<close>

definition printsAsTenth :: "jsnum \<Rightarrow> nat \<Rightarrow> error + int" where
  "printsAsTenth x d =
     (if x = fl (1 / 10) \<and> 0 < d then Inr (10 ^ (d - 1)) else Inl InvalidUnits)"

definition tokenOf :: "addr \<Rightarrow> sdkToken" where
  "tokenOf a = \<lparr>sdkAddress = a, decimals = 18\<rparr>"

definition pairOf :: "addr \<Rightarrow> addr \<Rightarrow> pair" where
  "pairOf a b = \<lparr>token0 = tokenOf a, token1 = tokenOf b\<rparr>"

definition listed :: "addr \<Rightarrow> apiToken" where
  "listed a = \<lparr>api_id = a, api_symbol = a, polygon_pos = Some a, contract_address = Some a\<rparr>"

definition kept :: "addr \<Rightarrow> token" where
  "kept a = \<lparr>tid = a, symbol = a, address = Some a\<rparr>"

definition quoteAt :: "venue \<Rightarrow> int \<Rightarrow> sdkToken \<Rightarrow> int \<Rightarrow> trade" where
  "quoteAt v r tok amt =
     \<lparr>dex = v, inputToken = tok, inputAmount = amt, outputAmount = r,
      executionPrice = \<lparr>raw = r\<rparr>\<rparr>"

definition answering :: "addr \<Rightarrow> addr \<Rightarrow> error + pair option" where
  "answering a b = Inr (Some (pairOf a b))"

definition failingFor :: "addr \<Rightarrow> addr \<Rightarrow> addr \<Rightarrow> error + pair option" where
  "failingFor x a b = (if b = x then Inl NetworkError else Inr (Some (pairOf a b)))"

definition market ::
  "(venue \<Rightarrow> pair \<Rightarrow> int) \<Rightarrow> (addr \<Rightarrow> addr \<Rightarrow> error + pair option)
     \<Rightarrow> (addr \<Rightarrow> addr \<Rightarrow> error + pair option) \<Rightarrow> sdk" where
  "market priceOf uniswapAnswer sushiAnswer =
     \<lparr>Fetcher_fetchPairData = uniswapAnswer,
      SushiFetcher_fetchPairData = sushiAnswer,
      Trade_new = (\<lambda>p tok amt. Inr (quoteAt Uniswap (priceOf Uniswap p) tok amt)),
      SushiTrade_new = (\<lambda>p tok amt. Inr (quoteAt SushiSwap (priceOf SushiSwap p) tok amt)),
      getGasPrice = (\<lambda>a b. Inr (10 ^ 9)),
      balanceOf = (\<lambda>a. Inr 1),
      parseUnits = printsAsTenth\<rparr>"

text \<open>
  Prices that make the pair \<open>(0xa, 0xb)\<close> the most profitable candidate, \<open>(0xa, 0xc)\<close> a
  smaller one and \<open>(0xb, 0xc)\<close> a loss.
\<close>

definition fallingPrices :: "venue \<Rightarrow> pair \<Rightarrow> int" where
  "fallingPrices v p =
     (if sdkAddress (token1 p) = ''0xb'' then (if v = Uniswap then 10 ^ 16 else 2 * 10 ^ 16)
      else if sdkAddress (token0 p) = ''0xa'' then (if v = Uniswap then 5 * 10 ^ 15 else 4 * 10 ^ 15)
      else 10 ^ 14)"

text \<open>A price at which the profit of \<^verbatim>\<open>index.js\<close> is exactly \<open>10 ^ 15\<close>.\<close>

definition boundaryPrices :: "venue \<Rightarrow> pair \<Rightarrow> int" where
  "boundaryPrices v p = 1220000000000000"

text \<open>
  A market for the triangle \<open>A = 0xc\<close>, \<open>B = 0xa\<close>, \<open>C = 0xb\<close>. A pair lists the token with
  the lower address as \<^verbatim>\<open>token0\<close>, as Uniswap pairs do. On the pool of \<open>A\<close> and \<open>B\<close> one \<open>A\<close>
  buys two \<open>B\<close>; the other two pools trade one for one.
\<close>

definition swapOut :: "pair \<Rightarrow> sdkToken \<Rightarrow> int \<Rightarrow> int" where
  "swapOut p tok amt =
     (if p = pairOf ''0xa'' ''0xc''
      then (if sdkAddress tok = ''0xc'' then amt * 2 else amt div 2)
      else amt)"

definition triangleMarket :: sdk where
  "triangleMarket =
     \<lparr>Fetcher_fetchPairData = answering,
      SushiFetcher_fetchPairData = answering,
      Trade_new = (\<lambda>p tok amt. Inr \<lparr>dex = Uniswap, inputToken = tok, inputAmount = amt,
                                      outputAmount = swapOut p tok amt,
                                      executionPrice = \<lparr>raw = swapOut p tok amt\<rparr>\<rparr>),
      SushiTrade_new = (\<lambda>p tok amt. Inl SdkFailure),
      getGasPrice = (\<lambda>a b. Inr (10 ^ 9)),
      balanceOf = (\<lambda>a. Inr 1),
      parseUnits = printsAsTenth\<rparr>"

section \<open>Evaluation rules and auxiliary facts\<close>

lemmas pass_defs =
  evaluatePairsAcrossDEXs_def fetchTopTokens_def truthy_def evaluatePair_def fetchPairs_def
  parseUnits1_def bestCurrentTrade_def better_def lessThan_price_def estimateGasCost_def
  tdiv_def calculateProfit_def finishPass_def stochasticDecision_def Math_random_def bn_div_def
  toNumber_def profitThreshold_def

lemmas pass_v2_defs =
  evaluatePairsAcrossDEXs_v2_def fetchTopTokens_v2_def evaluatePair_v2_def
  getTokenBalance_def parseFloat_def hasSufficientBalance_def Math_min_def js_gt_def js_ge_def
  estimateGasCost_v2_def calculateProfit_v2_def finishPass_v2_def shouldExecute_v2_def
  MINIMUM_PROFIT_THRESHOLD_def

lemmas market_defs =
  market_def answering_def failingFor_def quoteAt_def pairOf_def tokenOf_def listed_def
  kept_def fallingPrices_def boundaryPrices_def printsAsTenth_def

text \<open>
  Rounding leaves an integer of fewer than 54 bits as it is, so arithmetic on such integers
  is exact as long as the result is one of them.
\<close>

lemma bitlength_le: "n < 2 ^ k \<Longrightarrow> bitlength n \<le> k"
proof (induction k arbitrary: n)
  case 0
  then show ?case by (simp add: bitlength.simps)
next
  case (Suc k)
  show ?case
  proof (cases "n \<le> 0")
    case True
    then show ?thesis by (simp add: bitlength.simps)
  next
    case False
    from Suc.prems have "n div 2 < 2 ^ k" by simp
    from Suc.IH [OF this] False show ?thesis
      by (subst bitlength.simps) simp
  qed
qed

lemma bitlength_pos: "0 < n \<Longrightarrow> 0 < bitlength n"
  by (subst bitlength.simps) simp

lemma roundEven_of_int: "roundEven (of_int m) = m"
  by (simp add: roundEven_def)

lemma fl_of_nat_exact:
  assumes "0 < a" and "a < 2 ^ 53"
  shows "fl (of_int a) = Number (of_int a)" and "fl (- of_int a) = Number (- of_int a)"
proof -
  define e where "e = int (bitlength a) - 1"
  define d where "d = nat (52 - e)"
  from assms have e: "0 \<le> e" "e \<le> 52"
    using bitlength_pos [of a] bitlength_le [of a 53] by (simp_all add: e_def)
  have one: "(1::rat) \<le> of_int a" using assms(1) by simp
  have ex: "exponent (of_int a) = e"
    using one by (simp add: exponent_def e_def)
  have m: "max e (- 1022) = e" using e by simp
  have ulp: "pow2 (e - 52) = 1 / 2 ^ d"
    using e by (auto simp: pow2_def d_def)
  have q: "(of_int a :: rat) / (1 / 2 ^ d) = of_int (a * 2 ^ d)" by simp
  have y: "of_int (roundEven ((of_int a :: rat) / (1 / 2 ^ d))) * (1 / 2 ^ d) = (of_int a :: rat)"
    unfolding q roundEven_of_int by simp
  have "(of_int a :: rat) < 2 ^ 53"
    using assms(2) by (metis of_int_less_iff of_int_numeral of_int_power)
  also have "\<dots> < 2 ^ 1024" by simp
  finally have small: "\<not> (2 ^ 1024 \<le> (of_int a :: rat))" by simp
  have nz: "(of_int a :: rat) \<noteq> 0" using assms(1) by simp
  have abs1: "\<bar>of_int a :: rat\<bar> = of_int a" using assms(1) by simp
  have abs2: "\<bar>- of_int a :: rat\<bar> = of_int a" using assms(1) by simp
  show "fl (of_int a) = Number (of_int a)"
    using nz small assms(1)
    by (simp only: fl_def Let_def abs1 ex m ulp y if_False sgn_pos of_int_0_less_iff mult_1)
  have neg: "\<not> (0 < - (of_int a :: rat))" using assms(1) by simp
  have sg: "sgn (- (of_int a :: rat)) = - 1" using assms(1) by simp
  show "fl (- of_int a) = Number (- of_int a)"
    using nz small neg sg
    by (simp only: fl_def Let_def abs2 ex m ulp y if_False neg_equal_0_iff_equal) simp
qed

lemma fl_of_int_exact: "\<bar>n\<bar> < 2 ^ 53 \<Longrightarrow> fl (of_int n) = Number (of_int n)"
proof -
  assume b: "\<bar>n\<bar> < 2 ^ 53"
  consider "n = 0" | "0 < n" | "n < 0" by linarith
  then show ?thesis
  proof cases
    case 1
    then show ?thesis by (simp add: fl_def)
  next
    case 2
    with b fl_of_nat_exact(1) [of n] show ?thesis by simp
  next
    case 3
    with b fl_of_nat_exact(2) [of "- n"] show ?thesis by simp
  qed
qed

text \<open>Evaluating \<open>fl\<close> on numerals, and the doubles that occur in the example markets.\<close>

lemma bitlength_numerals:
  "bitlength 0 = 0"
  "bitlength 1 = 1"
  "bitlength (numeral k) = Suc (bitlength (numeral k div 2))"
  by (subst bitlength.simps, simp)+

lemma floor_rat_numeral: "\<lfloor>(numeral a :: rat) / numeral b\<rfloor> = numeral a div numeral b"
  by (metis floor_divide_of_int_eq of_int_numeral)

lemma ceiling_rat_numeral:
  "\<lceil>(numeral a :: rat) / numeral b\<rceil> = - (- numeral a div numeral b)"
  by (metis ceiling_divide_eq_div of_int_numeral)

lemmas fl_eval =
  fl_def exponent_def pow2_def roundEven_def bitlength_numerals Let_def floor_rat_numeral
  ceiling_rat_numeral

lemma fl_values:
  "fl 1 = Number 1"
  "fl (1 / 10) = Number (3602879701896397 / 36028797018963968)"
  "fl (3602879701896397 / 36028797018963968) = Number (3602879701896397 / 36028797018963968)"
  "fl (1 / 100) = Number (5764607523034235 / 576460752303423488)"
  "fl 10000000000000000 = Number 10000000000000000"
  "fl 4000000000000000 = Number 4000000000000000"
  "fl 100000000000000 = Number 100000000000000"
  "fl 275000000000000 = Number 275000000000000"
  "fl 9725000000000000 = Number 9725000000000000"
  "fl 3725000000000000 = Number 3725000000000000"
  "fl (- 175000000000000) = Number (- 175000000000000)"
  by (simp_all add: fl_eval)

text \<open>
  Two places where the doubles differ from exact arithmetic: \<^verbatim>\<open>1e18 - 1\<close> is \<^verbatim>\<open>1e18\<close>, and
  \<^verbatim>\<open>Math.min(3, 3) * 0.1\<close> is \<^verbatim>\<open>0.30000000000000004\<close>.
\<close>

lemma calculateProfit_v2_rounds:
  "calculateProfit_v2 \<lparr>raw = 10 ^ 18\<rparr> 1 amountIn = Number (10 ^ 18)"
  by (simp add: calculateProfit_v2_def fl_eval)

lemma amountToTrade_rounds:
  "js_mul (Math_min (Number 3) (Number 3)) (fl (1 / 10))
     = Number (1351079888211149 / 4503599627370496)"
  by (simp add: Math_min_def fl_eval)

lemma tdiv_nonneg: "0 \<le> a \<Longrightarrow> 0 < b \<Longrightarrow> tdiv a b = a div b"
  by (cases "a = 0") (simp_all add: tdiv_def)

text \<open>A draw in \<open>[0, 1)\<close> lies below an integer exactly when that integer is at least one.\<close>

lemma draw_below_integer: "0 \<le> r \<Longrightarrow> r < 1 \<Longrightarrow> ((of_int q :: rat) > r) = (1 \<le> q)"
proof
  assume r: "0 \<le> r" "r < 1" and "r < of_int q"
  then have "(0::rat) < of_int q" by linarith
  then show "1 \<le> q" by simp
next
  assume r: "0 \<le> r" "r < 1" and q: "1 \<le> q"
  then have "(1::rat) \<le> of_int q" by simp
  with r show "r < of_int q" by linarith
qed

text \<open>
  Two invariants of the loop of \<^verbatim>\<open>index.js\<close>, for a run that is not cut short by an
  exception: a trade is retained at the end iff one was retained at the start or some
  candidate's profit exceeded the threshold; and a retained profit exceeds the threshold.
\<close>

lemma loop_retains_iff:
  "evaluatePairs_loop s thr cs st = Inr st' \<Longrightarrow>
     (bestTrade st' \<noteq> None) =
       (bestTrade st \<noteq> None
        \<or> (\<exists>c\<in>set cs. \<exists>t p. evaluatePair s c = Inr (Some (t, p)) \<and> thr < p))"
proof (induction cs arbitrary: st)
  case Nil
  then show ?case by simp
next
  case (Cons c cs)
  show ?case
  proof (cases "evaluatePair s c")
    case (Inl e)
    with Cons.prems show ?thesis by simp
  next
    case (Inr r)
    show ?thesis
    proof (cases r)
      case None
      with Inr Cons show ?thesis by simp
    next
      case (Some tp)
      obtain t p where tp: "tp = (t, p)" by (cases tp)
      show ?thesis
      proof (cases "thr < p")
        case True
        with Inr Some tp Cons.prems
        have "evaluatePairs_loop s thr cs \<lparr>bestTrade = Some t, bestProfit = p\<rparr> = Inr st'"
          by simp
        from Cons.IH [OF this] True Inr Some tp show ?thesis by auto
      next
        case False
        with Inr Some tp Cons.prems
        have "evaluatePairs_loop s thr cs st = Inr st'" by simp
        from Cons.IH [OF this] False Inr Some tp show ?thesis by auto
      qed
    qed
  qed
qed

lemma loop_retained_above:
  "evaluatePairs_loop s thr cs st = Inr st' \<Longrightarrow>
   (bestTrade st \<noteq> None \<longrightarrow> thr < bestProfit st) \<Longrightarrow>
   bestTrade st' \<noteq> None \<longrightarrow> thr < bestProfit st'"
proof (induction cs arbitrary: st)
  case Nil
  then show ?case by simp
next
  case (Cons c cs)
  show ?case
  proof (cases "evaluatePair s c")
    case (Inl e)
    with Cons.prems show ?thesis by simp
  next
    case (Inr r)
    show ?thesis
    proof (cases r)
      case None
      with Inr Cons show ?thesis by simp
    next
      case (Some tp)
      obtain t p where tp: "tp = (t, p)" by (cases tp)
      show ?thesis
      proof (cases "thr < p")
        case True
        with Inr Some tp Cons.prems
        have "evaluatePairs_loop s thr cs \<lparr>bestTrade = Some t, bestProfit = p\<rparr> = Inr st'"
          by simp
        from Cons.IH [OF this] True show ?thesis by simp
      next
        case False
        with Inr Some tp Cons.prems
        have "evaluatePairs_loop s thr cs st = Inr st'" by simp
        from Cons.IH [OF this] Cons.prems(2) show ?thesis by simp
      qed
    qed
  qed
qed

text \<open>
  The loop run over a list of candidates followed by another continues from the state the
  first run left; hence a last candidate above the threshold is the one retained,
  whatever was retained before it.
\<close>

lemma loop_append:
  "evaluatePairs_loop s thr (cs @ ds) st =
     (case evaluatePairs_loop s thr cs st of
        Inl e \<Rightarrow> Inl e
      | Inr st1 \<Rightarrow> evaluatePairs_loop s thr ds st1)"
  by (induction cs arbitrary: st) (auto split: sum.splits option.splits)

lemma last_above_threshold_is_retained:
  "evaluatePairs_loop s thr cs st = Inr st1 \<Longrightarrow>
   evaluatePair s c = Inr (Some (t, p)) \<Longrightarrow> thr < p \<Longrightarrow>
   evaluatePairs_loop s thr (cs @ [c]) st = Inr \<lparr>bestTrade = Some t, bestProfit = p\<rparr>"
  by (simp add: loop_append)

text \<open>
  A Uniswap fetch that throws skips the candidate; a SushiSwap fetch that throws ends the
  loop with that error.
\<close>

lemma uniswap_failure_skips:
  "address t1 = Some a1 \<Longrightarrow> address t2 = Some a2 \<Longrightarrow>
   Fetcher_fetchPairData s a1 a2 = Inl e \<Longrightarrow>
   evaluatePairs_loop s thr ((t1, t2) # cs) st = evaluatePairs_loop s thr cs st"
  by (simp add: evaluatePair_def fetchPairs_def)

lemma sushi_failure_aborts:
  "address t1 = Some a1 \<Longrightarrow> address t2 = Some a2 \<Longrightarrow> a1 \<noteq> [] \<Longrightarrow> a2 \<noteq> [] \<Longrightarrow>
   Fetcher_fetchPairData s a1 a2 = Inr (Some up) \<Longrightarrow>
   Trade_new s up (token0 up) (parseUnits1 (decimals (token0 up))) = Inr ut \<Longrightarrow>
   SushiFetcher_fetchPairData s a1 a2 = Inl e \<Longrightarrow>
   evaluatePairs_loop s thr ((t1, t2) # cs) st = Inl e"
  by (simp add: evaluatePair_def fetchPairs_def)

lemma finishPass_positive:
  "bestTrade st = Some t \<Longrightarrow> 0 < bestProfit st \<Longrightarrow> finishPass rt st = TradeExecuted t"
  by (simp add: finishPass_def)

lemma finishPass_nothing:
  "bestTrade st = None \<Longrightarrow> finishPass rt st = NoTradeLogged"
  by (simp add: finishPass_def)

text \<open>
  The pass of \<^verbatim>\<open>part_001\<close> never reaches \<^verbatim>\<open>executeTrade\<close>: its only call site fails on
  the unbound \<^verbatim>\<open>amountToTrade\<close>.
\<close>

lemma part_001_never_executes:
  "evaluatePairsAcrossDEXs_v2 s response parsed \<noteq> TradeExecuted t"
  by (simp add: evaluatePairsAcrossDEXs_v2_def finishPass_v2_def split: sum.splits)

text \<open>
  The code's triangular profit is the specification's one for the tokens that happen to
  be \<^verbatim>\<open>token0\<close> of the three pairs.
\<close>

lemma triangularProfit_from_token0:
  "triangularProfit s amountIn pair1 pair2 pair3
     = triangularProfit_spec s amountIn (token0 pair1) (token0 pair2) (token0 pair3)
         pair1 pair2 pair3"
  by (simp add: triangularProfit_def triangularProfit_spec_def)

lemma falling_run:
  "evaluatePairs_loop (market fallingPrices answering answering) (10 ^ 15)
     (candidatePairs [kept ''0xa'', kept ''0xb'', kept ''0xc''])
     \<lparr>bestTrade = None, bestProfit = 0\<rparr>
   = Inr \<lparr>bestTrade = Some (quoteAt SushiSwap (4 * 10 ^ 15) (tokenOf ''0xa'') (10 ^ 18)),
          bestProfit = 3780000000000000\<rparr>"
  by (simp add: pass_defs market_defs)

section \<open>The claims\<close>

text \<open>
  C1 (as amended). The profit \<^verbatim>\<open>calculateProfit\<close> returns is the raw execution price minus
  the gas cost, exactly; the value of the input is no argument of it and is not
  subtracted. The result depends only on the raw price and the gas cost, so repeated calls
  on the same inputs agree; in \<^verbatim>\<open>part_001\<close> this holds whatever traded amount is passed in.
  There the difference is taken on JS numbers: it is the exact difference when the raw
  price, the gas cost and their difference are below \<open>2 ^ 53\<close> in absolute value. In the
  pass of \<^verbatim>\<open>index.js\<close> the profit recorded for a candidate is the raw price of the chosen
  trade minus the fee estimate.
\<close>

theorem C1_profit_is_price_minus_gas:
  "calculateProfit execPrice gasCost = raw execPrice - gasCost
   \<and> (raw execPrice = raw execPrice' \<longrightarrow>
        calculateProfit execPrice gasCost = calculateProfit execPrice' gasCost
        \<and> calculateProfit_v2 execPrice gasCost amountIn
            = calculateProfit_v2 execPrice' gasCost amountIn')
   \<and> (\<bar>raw execPrice\<bar> < 2 ^ 53 \<and> \<bar>gasCost\<bar> < 2 ^ 53 \<and> \<bar>raw execPrice - gasCost\<bar> < 2 ^ 53 \<longrightarrow>
        calculateProfit_v2 execPrice gasCost amountIn = Number (of_int (raw execPrice - gasCost)))
   \<and> (evaluatePair s c = Inr (Some (t, p)) \<longrightarrow>
        (\<exists>token1Address token2Address fee.
            estimateGasCost (getGasPrice s token1Address token2Address) t = Inr fee
            \<and> p = raw (executionPrice t) - fee))"
proof (intro conjI impI)
  show "calculateProfit execPrice gasCost = raw execPrice - gasCost"
    by (simp add: calculateProfit_def)
next
  assume "raw execPrice = raw execPrice'"
  then show "calculateProfit execPrice gasCost = calculateProfit execPrice' gasCost"
    by (simp add: calculateProfit_def)
next
  assume "raw execPrice = raw execPrice'"
  then show "calculateProfit_v2 execPrice gasCost amountIn
               = calculateProfit_v2 execPrice' gasCost amountIn'"
    by (simp add: calculateProfit_v2_def)
next
  assume "\<bar>raw execPrice\<bar> < 2 ^ 53 \<and> \<bar>gasCost\<bar> < 2 ^ 53 \<and> \<bar>raw execPrice - gasCost\<bar> < 2 ^ 53"
  then have a: "fl (of_int (raw execPrice)) = Number (of_int (raw execPrice))"
    and b: "fl (of_int gasCost) = Number (of_int gasCost)"
    and d: "fl (of_int (raw execPrice - gasCost)) = Number (of_int (raw execPrice - gasCost))"
    using fl_of_int_exact [of "raw execPrice"] fl_of_int_exact [of gasCost]
      fl_of_int_exact [of "raw execPrice - gasCost"]
    by blast+
  have "(of_int (raw execPrice) :: rat) - of_int gasCost = of_int (raw execPrice - gasCost)"
    by simp
  with d have "fl (of_int (raw execPrice) - of_int gasCost)
                 = Number (of_int (raw execPrice - gasCost))"
    by (simp only:)
  with a b show "calculateProfit_v2 execPrice gasCost amountIn
                   = Number (of_int (raw execPrice - gasCost))"
    by (simp add: calculateProfit_v2_def)
next
  assume "evaluatePair s c = Inr (Some (t, p))"
  then show "\<exists>token1Address token2Address fee.
               estimateGasCost (getGasPrice s token1Address token2Address) t = Inr fee
               \<and> p = raw (executionPrice t) - fee"
    by (auto simp: evaluatePair_def calculateProfit_def Let_def
             split: option.splits sum.splits if_splits)
qed

text \<open>
  C1, witness: two calls on the quote with raw price \<open>4 * 10 ^ 15\<close> and the fee of
  \<^verbatim>\<open>part_001\<close>, with different traded amounts, and the first candidate of the market with
  falling prices.
\<close>

theorem C1_profit_is_price_minus_gas_witness:
  "calculateProfit \<lparr>raw = 4 * 10 ^ 15\<rparr> 220000000000000 = 3780000000000000
   \<and> calculateProfit_v2 \<lparr>raw = 4 * 10 ^ 15\<rparr> 275000000000000 (fl (1 / 10))
       = calculateProfit_v2 \<lparr>raw = 4 * 10 ^ 15\<rparr> 275000000000000 (Number 3)
   \<and> calculateProfit_v2 \<lparr>raw = 4 * 10 ^ 15\<rparr> 275000000000000 (fl (1 / 10))
       = Number 3725000000000000
   \<and> evaluatePair (market fallingPrices answering answering) (kept ''0xa'', kept ''0xb'')
       = Inr (Some (quoteAt Uniswap (10 ^ 16) (tokenOf ''0xa'') (10 ^ 18), 9780000000000000))
   \<and> (\<exists>token1Address token2Address fee.
         estimateGasCost (getGasPrice (market fallingPrices answering answering)
                            token1Address token2Address)
           (quoteAt Uniswap (10 ^ 16) (tokenOf ''0xa'') (10 ^ 18)) = Inr fee
         \<and> 9780000000000000 = raw (executionPrice (quoteAt Uniswap (10 ^ 16) (tokenOf ''0xa'') (10 ^ 18))) - fee)"
proof -
  have run: "evaluatePair (market fallingPrices answering answering) (kept ''0xa'', kept ''0xb'')
       = Inr (Some (quoteAt Uniswap (10 ^ 16) (tokenOf ''0xa'') (10 ^ 18), 9780000000000000))"
    by (simp add: pass_defs market_defs)
  note at_v2 = C1_profit_is_price_minus_gas
         [of "\<lparr>raw = 4 * 10 ^ 15\<rparr>" 275000000000000 "\<lparr>raw = 4 * 10 ^ 15\<rparr>" "fl (1 / 10)" "Number 3"
             "market fallingPrices answering answering" "(kept ''0xa'', kept ''0xb'')"
             "quoteAt Uniswap (10 ^ 16) (tokenOf ''0xa'') (10 ^ 18)" 9780000000000000]
  have w1: "calculateProfit \<lparr>raw = 4 * 10 ^ 15\<rparr> 220000000000000 = 3780000000000000"
    using C1_profit_is_price_minus_gas [of "\<lparr>raw = 4 * 10 ^ 15\<rparr>" 220000000000000] by simp
  have w2: "calculateProfit_v2 \<lparr>raw = 4 * 10 ^ 15\<rparr> 275000000000000 (fl (1 / 10))
       = calculateProfit_v2 \<lparr>raw = 4 * 10 ^ 15\<rparr> 275000000000000 (Number 3)"
    using at_v2 by blast
  have range: "\<bar>raw \<lparr>raw = 4 * 10 ^ 15\<rparr>\<bar> < 2 ^ 53 \<and> \<bar>275000000000000 :: int\<bar> < 2 ^ 53
       \<and> \<bar>raw \<lparr>raw = 4 * 10 ^ 15\<rparr> - 275000000000000\<bar> < 2 ^ 53"
    by simp
  with at_v2
  have "calculateProfit_v2 \<lparr>raw = 4 * 10 ^ 15\<rparr> 275000000000000 (fl (1 / 10))
       = Number (of_int (raw \<lparr>raw = 4 * 10 ^ 15\<rparr> - 275000000000000))"
    by blast
  then have w3: "calculateProfit_v2 \<lparr>raw = 4 * 10 ^ 15\<rparr> 275000000000000 (fl (1 / 10))
       = Number 3725000000000000"
    by simp
  from at_v2 run
  have w4: "\<exists>token1Address token2Address fee.
         estimateGasCost (getGasPrice (market fallingPrices answering answering)
                            token1Address token2Address)
           (quoteAt Uniswap (10 ^ 16) (tokenOf ''0xa'') (10 ^ 18)) = Inr fee
         \<and> 9780000000000000 = raw (executionPrice (quoteAt Uniswap (10 ^ 16) (tokenOf ''0xa'') (10 ^ 18))) - fee"
    by blast
  from w1 w2 w3 run w4 show ?thesis by blast
qed

text \<open>
  C1, counterexample. For the quote with raw price \<open>4 * 10 ^ 15\<close>, the input of one token
  (\<open>10 ^ 18\<close>) that \<^verbatim>\<open>index.js\<close> trades and the gas cost \<open>220000000000000\<close>, the computed
  profit is not output minus input minus gas.
\<close>

theorem C1_counterexample_input_not_subtracted:
  "calculateProfit \<lparr>raw = 4 * 10 ^ 15\<rparr> 220000000000000
     \<noteq> netProfit_spec (4 * 10 ^ 15) (parseUnits1 18) 220000000000000"
  by (simp add: calculateProfit_def netProfit_spec_def parseUnits1_def)

text \<open>
  C2, at a failing input. The first candidate \<open>(0xa, 0xb)\<close> has profit
  \<open>9780000000000000\<close>, the second \<open>(0xa, 0xc)\<close> the smaller \<open>3780000000000000\<close>; both
  exceed the threshold \<open>10 ^ 15\<close>. The loop of \<^verbatim>\<open>index.js\<close> ends with the second one
  retained: a candidate replaces the retained trade whenever it exceeds the threshold, not
  only when it improves on it, and the retained profit is not the maximum. The loop of
  \<^verbatim>\<open>part_001\<close> (\<^verbatim>\<open>potentialProfit > 0\<close>) does the same.
\<close>

theorem C2_last_candidate_above_threshold_is_kept:
  "evaluatePair (market fallingPrices answering answering) (kept ''0xa'', kept ''0xb'')
     = Inr (Some (quoteAt Uniswap (10 ^ 16) (tokenOf ''0xa'') (10 ^ 18), 9780000000000000))
   \<and> evaluatePair (market fallingPrices answering answering) (kept ''0xa'', kept ''0xc'')
     = Inr (Some (quoteAt SushiSwap (4 * 10 ^ 15) (tokenOf ''0xa'') (10 ^ 18), 3780000000000000))
   \<and> evaluatePairs_loop (market fallingPrices answering answering) (10 ^ 15)
        (candidatePairs [kept ''0xa'', kept ''0xb'', kept ''0xc''])
        \<lparr>bestTrade = None, bestProfit = 0\<rparr>
     = Inr \<lparr>bestTrade = Some (quoteAt SushiSwap (4 * 10 ^ 15) (tokenOf ''0xa'') (10 ^ 18)),
            bestProfit = 3780000000000000\<rparr>
   \<and> evaluatePair_v2 (market fallingPrices answering answering) (kept ''0xa'', kept ''0xb'')
     = Inr (Some (quoteAt Uniswap (10 ^ 16) (tokenOf ''0xa'') (10 ^ 17),
                  Number 9725000000000000))
   \<and> evaluatePairs_loop_v2 (market fallingPrices answering answering)
        (candidatePairs [kept ''0xa'', kept ''0xb'', kept ''0xc''])
        \<lparr>bestTrade_v2 = None, bestProfit_v2 = Number 0\<rparr>
     = Inr \<lparr>bestTrade_v2 = Some (quoteAt SushiSwap (4 * 10 ^ 15) (tokenOf ''0xa'') (10 ^ 17)),
            bestProfit_v2 = Number 3725000000000000\<rparr>"
  by (simp add: pass_defs pass_v2_defs market_defs fl_values)

text \<open>
  C3 (as amended). In \<^verbatim>\<open>index.js\<close>, with a threshold that is not negative, a pass whose
  loop completes executes a trade iff the profit of some candidate is strictly greater
  than the minimum profit threshold. In \<^verbatim>\<open>part_001\<close> the execute branch is chosen for a
  retained trade iff its profit is greater than or equal to the threshold.
\<close>

theorem C3_executes_iff_strictly_above:
  "(0 \<le> minimumProfitThreshold
      \<and> evaluatePairs_loop s minimumProfitThreshold cs \<lparr>bestTrade = None, bestProfit = 0\<rparr>
          = Inr st
     \<longrightarrow> (\<exists>t. finishPass rt st = TradeExecuted t)
         = (\<exists>c\<in>set cs. \<exists>t p. evaluatePair s c = Inr (Some (t, p))
                                \<and> minimumProfitThreshold < p))
   \<and> shouldExecute_v2 \<lparr>bestTrade_v2 = Some t2, bestProfit_v2 = Number p2\<rparr> (Number threshold)
       = (threshold \<le> p2)"
proof (intro conjI impI)
  assume "0 \<le> minimumProfitThreshold
      \<and> evaluatePairs_loop s minimumProfitThreshold cs \<lparr>bestTrade = None, bestProfit = 0\<rparr>
          = Inr st"
  then have run: "evaluatePairs_loop s minimumProfitThreshold cs
                    \<lparr>bestTrade = None, bestProfit = 0\<rparr> = Inr st"
    and thr: "0 \<le> minimumProfitThreshold" by simp_all
  from loop_retains_iff [OF run]
  have kept: "(bestTrade st \<noteq> None)
      = (\<exists>c\<in>set cs. \<exists>t p. evaluatePair s c = Inr (Some (t, p)) \<and> minimumProfitThreshold < p)"
    by simp
  from loop_retained_above [OF run]
  have above: "bestTrade st \<noteq> None \<longrightarrow> minimumProfitThreshold < bestProfit st" by simp
  have "(\<exists>t. finishPass rt st = TradeExecuted t) = (bestTrade st \<noteq> None)"
  proof (cases "bestTrade st")
    case None
    then show ?thesis by (simp add: finishPass_nothing)
  next
    case (Some t)
    with above thr have "0 < bestProfit st" by simp
    with Some show ?thesis by (simp add: finishPass_positive)
  qed
  with kept show "(\<exists>t. finishPass rt st = TradeExecuted t)
      = (\<exists>c\<in>set cs. \<exists>t p. evaluatePair s c = Inr (Some (t, p)) \<and> minimumProfitThreshold < p)"
    by simp
next
  show "shouldExecute_v2 \<lparr>bestTrade_v2 = Some t2, bestProfit_v2 = Number p2\<rparr>
          (Number threshold) = (threshold \<le> p2)"
    by (auto simp: shouldExecute_v2_def js_ge_def)
qed

text \<open>
  C3, witness: the market with falling prices, where the pass executes the trade it
  retained, and a retained trade of \<^verbatim>\<open>part_001\<close> whose profit equals the default threshold,
  the double \<^verbatim>\<open>0.01\<close>.
\<close>

theorem C3_executes_iff_strictly_above_witness:
  "(0::int) \<le> 10 ^ 15
   \<and> evaluatePairs_loop (market fallingPrices answering answering) (10 ^ 15)
        (candidatePairs [kept ''0xa'', kept ''0xb'', kept ''0xc''])
        \<lparr>bestTrade = None, bestProfit = 0\<rparr>
      = Inr \<lparr>bestTrade = Some (quoteAt SushiSwap (4 * 10 ^ 15) (tokenOf ''0xa'') (10 ^ 18)),
             bestProfit = 3780000000000000\<rparr>
   \<and> (\<exists>c\<in>set (candidatePairs [kept ''0xa'', kept ''0xb'', kept ''0xc'']). \<exists>t p.
         evaluatePair (market fallingPrices answering answering) c = Inr (Some (t, p))
         \<and> 10 ^ 15 < p)
   \<and> MINIMUM_PROFIT_THRESHOLD None = Number (5764607523034235 / 576460752303423488)
   \<and> shouldExecute_v2 \<lparr>bestTrade_v2 = Some (quoteAt Uniswap 5 (tokenOf ''0xa'') 1),
                         bestProfit_v2 = Number (5764607523034235 / 576460752303423488)\<rparr>
         (MINIMUM_PROFIT_THRESHOLD None)"
  using C3_executes_iff_strictly_above
          [of "10 ^ 15" "market fallingPrices answering answering"
              "candidatePairs [kept ''0xa'', kept ''0xb'', kept ''0xc'']"
              "\<lparr>bestTrade = Some (quoteAt SushiSwap (4 * 10 ^ 15) (tokenOf ''0xa'') (10 ^ 18)),
                bestProfit = 3780000000000000\<rparr>"
              "sconst (1 / 2)" "quoteAt Uniswap 5 (tokenOf ''0xa'') 1"
              "5764607523034235 / 576460752303423488"
              "5764607523034235 / 576460752303423488"]
        falling_run
  by (simp add: finishPass_def MINIMUM_PROFIT_THRESHOLD_def fl_values)

text \<open>
  C3, counterexample. A single candidate whose profit equals the threshold \<open>10 ^ 15\<close>
  exactly: the pass of \<^verbatim>\<open>index.js\<close> executes nothing.
\<close>

theorem C3_counterexample_at_threshold:
  "evaluatePair (market boundaryPrices answering answering) (kept ''0xa'', kept ''0xb'')
     = Inr (Some (quoteAt Uniswap 1220000000000000 (tokenOf ''0xa'') (10 ^ 18), 10 ^ 15))
   \<and> evaluatePairsAcrossDEXs (market boundaryPrices answering answering)
        (Inr [listed ''0xa'', listed ''0xb'']) (Inr (10 ^ 15)) (sconst (1 / 2)) = NoTradeLogged"
  by (simp add: pass_defs market_defs)

text \<open>
  C4. Of the Uniswap and the SushiSwap trade of a candidate, the one with the lower
  execution price is selected, whichever venue it is; at equal prices the Uniswap trade,
  which stands first, is selected.
\<close>

theorem C4_lower_price_wins_tie_keeps_uniswap:
  "(lessThan_price (executionPrice sushiTrade) (executionPrice uniswapTrade)
      \<longrightarrow> bestCurrentTrade uniswapTrade sushiTrade = sushiTrade)
   \<and> (lessThan_price (executionPrice uniswapTrade) (executionPrice sushiTrade)
      \<longrightarrow> bestCurrentTrade uniswapTrade sushiTrade = uniswapTrade)
   \<and> (raw (executionPrice uniswapTrade) = raw (executionPrice sushiTrade)
      \<longrightarrow> bestCurrentTrade uniswapTrade sushiTrade = uniswapTrade)"
  by (simp add: bestCurrentTrade_def better_def lessThan_price_def)

text \<open>C4, witness: SushiSwap cheaper, Uniswap cheaper, and a tie between distinct trades.\<close>

theorem C4_lower_price_wins_tie_keeps_uniswap_witness:
  "bestCurrentTrade (quoteAt Uniswap 7 (tokenOf ''0xa'') 1) (quoteAt SushiSwap 5 (tokenOf ''0xa'') 1)
     = quoteAt SushiSwap 5 (tokenOf ''0xa'') 1
   \<and> bestCurrentTrade (quoteAt Uniswap 5 (tokenOf ''0xa'') 1) (quoteAt SushiSwap 7 (tokenOf ''0xa'') 1)
     = quoteAt Uniswap 5 (tokenOf ''0xa'') 1
   \<and> bestCurrentTrade (quoteAt Uniswap 5 (tokenOf ''0xa'') 1) (quoteAt SushiSwap 5 (tokenOf ''0xa'') 1)
     = quoteAt Uniswap 5 (tokenOf ''0xa'') 1
   \<and> quoteAt Uniswap 5 (tokenOf ''0xa'') 1 \<noteq> quoteAt SushiSwap 5 (tokenOf ''0xa'') 1"
  using C4_lower_price_wins_tie_keeps_uniswap
          [of "quoteAt SushiSwap 5 (tokenOf ''0xa'') 1" "quoteAt Uniswap 7 (tokenOf ''0xa'') 1"]
        C4_lower_price_wins_tie_keeps_uniswap
          [of "quoteAt SushiSwap 7 (tokenOf ''0xa'') 1" "quoteAt Uniswap 5 (tokenOf ''0xa'') 1"]
        C4_lower_price_wins_tie_keeps_uniswap
          [of "quoteAt SushiSwap 5 (tokenOf ''0xa'') 1" "quoteAt Uniswap 5 (tokenOf ''0xa'') 1"]
  by (simp add: lessThan_price_def quoteAt_def)

text \<open>
  C5, at a failing input. The SushiSwap fetch throws for the first candidate
  \<open>(0xa, 0xb)\<close>: the pass ends in its \<^verbatim>\<open>catch\<close> with that error, although the remaining
  candidate \<open>(0xa, 0xc)\<close> is quotable on both venues and profitable. When the Uniswap
  fetch throws for the same candidate instead, \<open>fetchPairs\<close> absorbs it and the pass goes on
  to execute \<open>(0xa, 0xc)\<close>. \<^verbatim>\<open>part_001\<close> aborts in the same way.
\<close>

theorem C5_sushi_failure_aborts_pass:
  "evaluatePairsAcrossDEXs (market fallingPrices answering (failingFor ''0xb''))
     (Inr [listed ''0xa'', listed ''0xb'', listed ''0xc'']) (Inr (10 ^ 15)) (sconst (1 / 2))
     = ErrorReported NetworkError
   \<and> evaluatePair (market fallingPrices answering (failingFor ''0xb'')) (kept ''0xa'', kept ''0xc'')
     = Inr (Some (quoteAt SushiSwap (4 * 10 ^ 15) (tokenOf ''0xa'') (10 ^ 18), 3780000000000000))
   \<and> evaluatePairsAcrossDEXs (market fallingPrices (failingFor ''0xb'') answering)
     (Inr [listed ''0xa'', listed ''0xb'', listed ''0xc'']) (Inr (10 ^ 15)) (sconst (1 / 2))
     = TradeExecuted (quoteAt SushiSwap (4 * 10 ^ 15) (tokenOf ''0xa'') (10 ^ 18))
   \<and> evaluatePairsAcrossDEXs_v2 (market fallingPrices answering (failingFor ''0xb''))
     (Inr [listed ''0xa'', listed ''0xb'', listed ''0xc'']) None
     = ErrorReported NetworkError"
  by (simp add: pass_defs pass_v2_defs market_defs fl_values)

text \<open>
  C6 (as amended). When the token list is empty (the request failed, or no entry was
  kept), a pass of \<^verbatim>\<open>index.js\<close> whose \<^verbatim>\<open>MINIMUM_PROFIT_THRESHOLD\<close> could be read, and every
  pass of \<^verbatim>\<open>part_001\<close>, logs that no trade was found: nothing is executed and no error is
  reported. A pass of \<^verbatim>\<open>index.js\<close> whose threshold could not be read reports that error,
  whatever the token list.
\<close>

theorem C6_empty_universe:
  "(fetchTopTokens response = [] \<longrightarrow>
      evaluatePairsAcrossDEXs s response (Inr minimumProfitThreshold) rt = NoTradeLogged)
   \<and> (fetchTopTokens_v2 response = [] \<longrightarrow>
      evaluatePairsAcrossDEXs_v2 s response parsed = NoTradeLogged)
   \<and> evaluatePairsAcrossDEXs s response (Inl e) rt = ErrorReported e"
  by (simp add: evaluatePairsAcrossDEXs_def evaluatePairsAcrossDEXs_v2_def finishPass_def
      finishPass_v2_def shouldExecute_v2_def)

text \<open>C6, witness: a failed CoinGecko request, and an empty answer.\<close>

theorem C6_empty_universe_witness:
  "fetchTopTokens (Inl NetworkError) = []
   \<and> fetchTopTokens_v2 (Inr []) = []
   \<and> evaluatePairsAcrossDEXs (market fallingPrices answering answering) (Inl NetworkError)
        (Inr (10 ^ 15)) (sconst (1 / 2)) = NoTradeLogged
   \<and> evaluatePairsAcrossDEXs_v2 (market fallingPrices answering answering) (Inr []) None
        = NoTradeLogged"
  using C6_empty_universe
          [of "Inl NetworkError" "market fallingPrices answering answering" "10 ^ 15"
              "sconst (1 / 2)"]
        C6_empty_universe
          [of "Inr []" "market fallingPrices answering answering" _ _ None]
  by (simp add: fetchTopTokens_def fetchTopTokens_v2_def)

text \<open>
  C6, counterexample. The token list is empty and \<^verbatim>\<open>MINIMUM_PROFIT_THRESHOLD\<close> holds a
  string \<^verbatim>\<open>parseUnits\<close> cannot read: the pass of \<^verbatim>\<open>index.js\<close> ends in its \<^verbatim>\<open>catch\<close> and
  reports the error.
\<close>

theorem C6_counterexample_unreadable_threshold:
  "fetchTopTokens (Inr []) = []
   \<and> evaluatePairsAcrossDEXs (market fallingPrices answering answering) (Inr [])
        (Inl InvalidUnits) (sconst (1 / 2)) = ErrorReported InvalidUnits"
  by (simp add: evaluatePairsAcrossDEXs_def fetchTopTokens_def)

text \<open>
  C7. For an observed gas price \<open>p\<close> (never negative) the estimate is
  \<open>(p * 110 div 100) * u\<close> in integer arithmetic, with \<open>u = 200000\<close> gas units in
  \<^verbatim>\<open>index.js\<close> and \<open>u = 250000\<close> in \<^verbatim>\<open>part_001\<close>.
\<close>

theorem C7_estimateGasCost_buffer:
  "0 \<le> gasPrice \<Longrightarrow>
     estimateGasCost (Inr gasPrice) t = Inr ((gasPrice * 110 div 100) * 200000)
     \<and> estimateGasCost_v2 (Inr gasPrice) t = Inr ((gasPrice * 110 div 100) * 250000)"
  by (simp add: estimateGasCost_def estimateGasCost_v2_def tdiv_nonneg)

text \<open>C7, witness: a gas price that the buffer does not divide evenly.\<close>

theorem C7_estimateGasCost_buffer_witness:
  "estimateGasCost (Inr 1000000007) (quoteAt Uniswap 5 (tokenOf ''0xa'') 1) = Inr 220000001400000
   \<and> estimateGasCost_v2 (Inr 1000000007) (quoteAt Uniswap 5 (tokenOf ''0xa'') 1)
       = Inr 275000001750000"
  using C7_estimateGasCost_buffer [of 1000000007 "quoteAt Uniswap 5 (tokenOf ''0xa'') 1"]
  by simp

text \<open>
  C8 (as amended). \<^verbatim>\<open>stochasticDecision\<close> has no injectable random source: it draws from
  the global \<^verbatim>\<open>Math.random\<close> and leaves that generator advanced by one draw. Its outcome,
  whether a decision or a thrown error, nevertheless does not depend on the number drawn:
  for the same trade, profit and threshold it is the same in any two states of the
  generator whose next draws lie in \<open>[0, 1)\<close>.
\<close>

theorem C8_stochasticDecision_same_outcome:
  "0 \<le> shd rt \<and> shd rt < 1 \<and> 0 \<le> shd rt' \<and> shd rt' < 1 \<Longrightarrow>
     fst (stochasticDecision t profit threshold rt) = fst (stochasticDecision t profit threshold rt')
     \<and> snd (stochasticDecision t profit threshold rt) = stl rt"
  by (simp add: stochasticDecision_def Math_random_def draw_below_integer split: sum.splits)

text \<open>C8, witness: generators about to yield \<open>1/4\<close> and \<open>3/4\<close>, at twice the threshold.\<close>

theorem C8_stochasticDecision_same_outcome_witness:
  "fst (stochasticDecision (quoteAt Uniswap 5 (tokenOf ''0xa'') 1) (2 * 10 ^ 15) profitThreshold
          (sconst (1 / 4)))
     = fst (stochasticDecision (quoteAt Uniswap 5 (tokenOf ''0xa'') 1) (2 * 10 ^ 15)
              profitThreshold (sconst (3 / 4)))
   \<and> fst (stochasticDecision (quoteAt Uniswap 5 (tokenOf ''0xa'') 1) (2 * 10 ^ 15) profitThreshold
          (sconst (1 / 4)))
     = Inr True"
  using C8_stochasticDecision_same_outcome
          [of "sconst (1 / 4)" "sconst (3 / 4)" "quoteAt Uniswap 5 (tokenOf ''0xa'') 1"
              "2 * 10 ^ 15" profitThreshold]
  by (simp add: stochasticDecision_def Math_random_def bn_div_def tdiv_def toNumber_def
      profitThreshold_def)

text \<open>
  C8, counterexample. The global generator is about to yield \<open>1/4\<close> and then \<open>3/4\<close> for
  ever. The decision of the code consumes the \<open>1/4\<close>: the generator it leaves behind is not
  the one it found, whereas a decision drawing from an injected source, even one that
  yields the same \<open>1/4\<close>, leaves the global generator as it was.
\<close>

theorem C8_counterexample_draws_from_global_generator:
  "stochasticDecision (quoteAt Uniswap 5 (tokenOf ''0xa'') 1) (2 * 10 ^ 15) profitThreshold
       (1 / 4 ## sconst (3 / 4))
     = (Inr True, sconst (3 / 4))
   \<and> stochasticDecision_spec (1 / 4) (quoteAt Uniswap 5 (tokenOf ''0xa'') 1) (2 * 10 ^ 15)
       profitThreshold (1 / 4 ## sconst (3 / 4))
     = (Inr True, 1 / 4 ## sconst (3 / 4))
   \<and> sconst (3 / 4) \<noteq> 1 / 4 ## sconst (3 / 4 :: rat)"
proof -
  have "shd (sconst (3 / 4 :: rat)) \<noteq> shd (1 / 4 ## sconst (3 / 4))" by simp
  then have "sconst (3 / 4) \<noteq> 1 / 4 ## sconst (3 / 4 :: rat)" by metis
  then show ?thesis
    by (simp add: stochasticDecision_def stochasticDecision_spec_def Math_random_def bn_div_def
        tdiv_def toNumber_def profitThreshold_def)
qed

text \<open>
  C9, at a failing input. For the candidate \<open>(A, B, C) = (0xc, 0xa, 0xb)\<close> the pair of \<open>A\<close>
  and \<open>B\<close> lists \<open>B\<close> as \<^verbatim>\<open>token0\<close>, so the first trade of the code runs \<open>B \<rightarrow> A\<close>. With an
  input of 1000 the code's profit is \<open>-500\<close>, while the hops \<open>A \<rightarrow> B\<close>, \<open>B \<rightarrow> C\<close>, \<open>C \<rightarrow> A\<close>
  return 2000, a profit of 1000.
\<close>

theorem C9_hops_start_at_token0:
  "triangularProfit triangleMarket 1000
     (pairOf ''0xa'' ''0xc'') (pairOf ''0xa'' ''0xb'') (pairOf ''0xb'' ''0xc'') = Inr (- 500)
   \<and> triangularProfit_spec triangleMarket 1000 (tokenOf ''0xc'') (tokenOf ''0xa'') (tokenOf ''0xb'')
     (pairOf ''0xa'' ''0xc'') (pairOf ''0xa'' ''0xb'') (pairOf ''0xb'' ''0xc'') = Inr 1000"
  by (simp add: triangularProfit_def triangularProfit_spec_def triangleMarket_def swapOut_def
      pairOf_def tokenOf_def)

text \<open>
  C10. The fee estimate does not depend on the trade passed in: at the same observed gas
  price any two trades get the same estimate, in both versions.
\<close>

theorem C10_estimateGasCost_ignores_trade:
  "estimateGasCost observed t1 = estimateGasCost observed t2
   \<and> estimateGasCost_v2 observed t1 = estimateGasCost_v2 observed t2"
  by (simp add: estimateGasCost_def estimateGasCost_v2_def)

end
